theory Spec2Isabelle
  imports Complex_Main
begin

section \<open>Numbers and errors\<close>

text \<open>
  Python exceptions are values. \<open>ValueError\<close> carries the offending signal type (the
  variable part of the message of \<^verbatim>\<open>raise ValueError(f"Tipo de senal no reconocido: ...")\<close>);
  \<open>OtherError\<close> stands for any exception an external library (SymPy, NumPy) raises.
  The specification's \<open>UnknownSignalKind\<close> is this \<open>ValueError\<close>.
\<close>

datatype py_error = ValueError string | ZeroDivisionError | IndexError | OtherError string

text \<open>
  A Python \<^verbatim>\<open>float\<close> is modelled as a \<open>real\<close>: rounding, overflow and signed zeros are
  not modelled. Dividing Python floats by zero raises \<^verbatim>\<open>ZeroDivisionError\<close>; NumPy
  scalars and arrays do not raise, they produce \<^verbatim>\<open>inf\<close> or \<^verbatim>\<open>nan\<close>. A NumPy \<^verbatim>\<open>float64\<close>
  is therefore a \<open>real\<close> or one of the three special values, with IEEE arithmetic on
  them (a zero is taken as \<^verbatim>\<open>+0.0\<close>).
\<close>

datatype npfloat = Fin real | PInf | NInf | NaN

fun np_neg :: "npfloat \<Rightarrow> npfloat" where
  "np_neg (Fin a) = Fin (- a)"
| "np_neg PInf = NInf"
| "np_neg NInf = PInf"
| "np_neg NaN = NaN"

fun np_add :: "npfloat \<Rightarrow> npfloat \<Rightarrow> npfloat" where
  "np_add (Fin a) (Fin b) = Fin (a + b)"
| "np_add NaN _ = NaN"
| "np_add _ NaN = NaN"
| "np_add PInf NInf = NaN"
| "np_add NInf PInf = NaN"
| "np_add PInf _ = PInf"
| "np_add NInf _ = NInf"
| "np_add _ PInf = PInf"
| "np_add _ NInf = NInf"

definition np_sub :: "npfloat \<Rightarrow> npfloat \<Rightarrow> npfloat" where
  "np_sub x y = np_add x (np_neg y)"

fun np_mul :: "npfloat \<Rightarrow> npfloat \<Rightarrow> npfloat" where
  "np_mul (Fin a) (Fin b) = Fin (a * b)"
| "np_mul NaN _ = NaN"
| "np_mul _ NaN = NaN"
| "np_mul PInf (Fin b) = (if b = 0 then NaN else if 0 < b then PInf else NInf)"
| "np_mul NInf (Fin b) = (if b = 0 then NaN else if 0 < b then NInf else PInf)"
| "np_mul (Fin a) PInf = (if a = 0 then NaN else if 0 < a then PInf else NInf)"
| "np_mul (Fin a) NInf = (if a = 0 then NaN else if 0 < a then NInf else PInf)"
| "np_mul PInf PInf = PInf"
| "np_mul NInf NInf = PInf"
| "np_mul PInf NInf = NInf"
| "np_mul NInf PInf = NInf"

fun np_div :: "npfloat \<Rightarrow> npfloat \<Rightarrow> npfloat" where
  "np_div (Fin a) (Fin b) =
     (if b = 0 then (if a = 0 then NaN else if 0 < a then PInf else NInf) else Fin (a / b))"
| "np_div NaN _ = NaN"
| "np_div _ NaN = NaN"
| "np_div (Fin a) _ = Fin 0"
| "np_div PInf (Fin b) = (if 0 \<le> b then PInf else NInf)"
| "np_div NInf (Fin b) = (if 0 \<le> b then NInf else PInf)"
| "np_div _ _ = NaN"

fun np_sqrt :: "npfloat \<Rightarrow> npfloat" where
  "np_sqrt (Fin a) = (if a < 0 then NaN else Fin (sqrt a))"
| "np_sqrt PInf = PInf"
| "np_sqrt NInf = NaN"
| "np_sqrt NaN = NaN"

fun np_less :: "npfloat \<Rightarrow> npfloat \<Rightarrow> bool" where
  "np_less (Fin a) (Fin b) = (a < b)"
| "np_less NaN _ = False"
| "np_less _ NaN = False"
| "np_less NInf NInf = False"
| "np_less NInf _ = True"
| "np_less PInf _ = False"
| "np_less _ PInf = True"
| "np_less _ NInf = False"

fun np_eq :: "npfloat \<Rightarrow> npfloat \<Rightarrow> bool" where
  "np_eq (Fin a) (Fin b) = (a = b)"
| "np_eq PInf PInf = True"
| "np_eq NInf NInf = True"
| "np_eq _ _ = False"

section \<open>core/rlc\_model.py\<close>

datatype damping = Subamortiguado | Criticamente_amortiguado | Sobreamortiguado

text \<open>
  The object \<^verbatim>\<open>RLCModel\<close>. \<^verbatim>\<open>R\<close>, \<^verbatim>\<open>L\<close>, \<^verbatim>\<open>C\<close> are the Python floats the caller passed;
  the derived attributes are NumPy scalars (\<^verbatim>\<open>omega_d\<close> is the Python integer 0 in the
  two damped cases).
\<close>

record RLCModel =
  model_R :: real
  model_L :: real
  model_C :: real
  omega_0 :: npfloat
  zeta :: npfloat
  f_0 :: npfloat
  damping_type :: damping
  omega_d :: npfloat

text \<open>
  \<^verbatim>\<open>RLCModel.__init__\<close> with \<^verbatim>\<open>_calculate_characteristic_params\<close>: no argument is
  validated. \<^verbatim>\<open>1 / np.sqrt(L * C)\<close> and \<^verbatim>\<open>np.sqrt(...)\<close> are NumPy operations;
  \<^verbatim>\<open>self.C / self.L\<close> divides two Python floats and raises when \<^verbatim>\<open>L\<close> is zero.
\<close>

definition RLCModel_init :: "real \<Rightarrow> real \<Rightarrow> real \<Rightarrow> py_error + RLCModel" where
  "RLCModel_init R L C =
     (let w0 = np_div (Fin 1) (np_sqrt (Fin (L * C))) in
      if L = 0 then Inl ZeroDivisionError
      else
        let z = np_mul (Fin (R / 2)) (np_sqrt (Fin (C / L)));
            f0 = np_div w0 (Fin (2 * pi));
            m = \<lparr>model_R = R, model_L = L, model_C = C, omega_0 = w0, zeta = z, f_0 = f0,
                 damping_type = Sobreamortiguado, omega_d = Fin 0\<rparr>
        in
          if np_less z (Fin 1) then
            Inr (m\<lparr>damping_type := Subamortiguado,
                   omega_d := np_mul w0 (np_sqrt (np_sub (Fin 1) (np_mul z z)))\<rparr>)
          else if np_eq z (Fin 1) then
            Inr (m\<lparr>damping_type := Criticamente_amortiguado, omega_d := Fin 0\<rparr>)
          else
            Inr (m\<lparr>damping_type := Sobreamortiguado, omega_d := Fin 0\<rparr>))"

text \<open>
  \<^verbatim>\<open>get_impedance\<close>: every operand is a Python float, so \<^verbatim>\<open>1 / (omega * self.C)\<close>
  raises \<^verbatim>\<open>ZeroDivisionError\<close> when the product is zero.
\<close>

definition get_impedance :: "RLCModel \<Rightarrow> real \<Rightarrow> py_error + complex" where
  "get_impedance m frequency =
     (let omega = 2 * pi * frequency;
          X_L = omega * model_L m
      in if omega * model_C m = 0 then Inl ZeroDivisionError
         else
           let X_C = 1 / (omega * model_C m)
           in Inr (complex_of_real (model_R m) + \<i> * complex_of_real (X_L - X_C)))"

section \<open>core/signals.py\<close>

text \<open>
  A parameter dictionary maps names to Python floats; \<^verbatim>\<open>params.get(key, default)\<close>.
\<close>

type_synonym params = "string \<rightharpoonup> real"

definition dict_get :: "params \<Rightarrow> string \<Rightarrow> real \<Rightarrow> real" where
  "dict_get d k dflt = (case d k of None \<Rightarrow> dflt | Some v \<Rightarrow> v)"

text \<open>
  A time grid is a float array of finite values. \<^verbatim>\<open>np.zeros_like(t)\<close>, and the masked
  assignment \<^verbatim>\<open>signal[mask] = value\<close> of one value to the positions where the mask holds.
\<close>

definition np_zeros_like :: "'a list \<Rightarrow> npfloat list" where
  "np_zeros_like t = replicate (length t) (Fin 0)"

definition mask_set :: "npfloat list \<Rightarrow> bool list \<Rightarrow> npfloat \<Rightarrow> npfloat list" where
  "mask_set signal msk v = map2 (\<lambda>s b. if b then v else s) signal msk"

definition step_signal :: "params \<Rightarrow> real list \<Rightarrow> npfloat list" where
  "step_signal p t =
     (let A = dict_get p ''amplitude'' 1
      in map (\<lambda>one. Fin (A * one)) (replicate (length t) 1))"

definition pulse_signal :: "params \<Rightarrow> real list \<Rightarrow> npfloat list" where
  "pulse_signal p t =
     (let A = dict_get p ''amplitude'' 1;
          a = dict_get p ''a'' (1 / 1000);
          signal0 = np_zeros_like t;
          signal1 = mask_set signal0 (map (\<lambda>x. x \<ge> 0) t) (Fin A);
          signal2 = mask_set signal1 (map (\<lambda>x. x \<ge> a) t) (Fin 0)
      in signal2)"

text \<open>
  \<^verbatim>\<open>signal[t >= 0] = A * t[t >= 0]\<close> writes, at each position where the mask holds, the
  product at that same position.
\<close>

definition ramp_signal :: "params \<Rightarrow> real list \<Rightarrow> npfloat list" where
  "ramp_signal p t =
     (let A = dict_get p ''amplitude'' 1;
          signal0 = np_zeros_like t
      in map2 (\<lambda>s x. if x \<ge> 0 then Fin (A * x) else s) signal0 t)"

definition delayed_signal :: "params \<Rightarrow> real list \<Rightarrow> npfloat list" where
  "delayed_signal p t =
     (let A = dict_get p ''amplitude'' 1;
          t0 = dict_get p ''t0'' (1 / 1000);
          signal0 = np_zeros_like t
      in mask_set signal0 (map (\<lambda>x. x \<ge> t0) t) (Fin A))"

text \<open>
  \<^verbatim>\<open>_impulse_signal\<close>: \<^verbatim>\<open>dt\<close> is a NumPy scalar when the grid has two points, so
  \<^verbatim>\<open>A / width\<close> does not raise on a zero width.
\<close>

definition impulse_signal :: "params \<Rightarrow> real list \<Rightarrow> npfloat list" where
  "impulse_signal p t =
     (let A = dict_get p ''amplitude'' 1;
          dt = (if length t > 1 then t ! 1 - t ! 0 else 1 / 10000);
          width = dt * 2;
          height = np_div (Fin A) (Fin width);
          signal0 = np_zeros_like t
      in mask_set signal0 (map (\<lambda>x. \<bar>x\<bar> < width / 2) t) height)"

definition generate_signal :: "string \<Rightarrow> params \<Rightarrow> real list \<Rightarrow> py_error + npfloat list" where
  "generate_signal signal_type p time_array =
     (if signal_type = ''step'' then Inr (step_signal p time_array)
      else if signal_type = ''pulse'' then Inr (pulse_signal p time_array)
      else if signal_type = ''ramp'' then Inr (ramp_signal p time_array)
      else if signal_type = ''delayed'' then Inr (delayed_signal p time_array)
      else if signal_type = ''impulse'' then Inr (impulse_signal p time_array)
      else Inl (ValueError signal_type))"

section \<open>core/laplace\_solver.py\<close>

subsection \<open>Symbolic expressions\<close>

text \<open>
  The SymPy expressions the solver builds with Python's operators over the symbols
  \<^verbatim>\<open>s\<close> and \<^verbatim>\<open>t\<close>, and their values at a point. \<open>Sin\<close> and \<open>Cos\<close> are not built by the
  solver; they occur in what the inverse transform returns.
\<close>

datatype expr =
    Num real
  | SymS
  | SymT
  | Neg expr
  | Add expr expr
  | Sub expr expr
  | Mul expr expr
  | Div expr expr
  | Pow expr nat
  | Exp expr
  | Sin expr
  | Cos expr

fun denote :: "expr \<Rightarrow> complex \<Rightarrow> complex \<Rightarrow> complex" where
  "denote (Num a) s t = complex_of_real a"
| "denote SymS s t = s"
| "denote SymT s t = t"
| "denote (Neg e) s t = - denote e s t"
| "denote (Add e1 e2) s t = denote e1 s t + denote e2 s t"
| "denote (Sub e1 e2) s t = denote e1 s t - denote e2 s t"
| "denote (Mul e1 e2) s t = denote e1 s t * denote e2 s t"
| "denote (Div e1 e2) s t = denote e1 s t / denote e2 s t"
| "denote (Pow e n) s t = denote e s t ^ n"
| "denote (Exp e) s t = exp (denote e s t)"
| "denote (Sin e) s t = sin (denote e s t)"
| "denote (Cos e) s t = cos (denote e s t)"

definition get_signal_laplace :: "string \<Rightarrow> params \<Rightarrow> py_error + expr" where
  "get_signal_laplace signal_type p =
     (let A = dict_get p ''amplitude'' 1 in
      if signal_type = ''step'' then Inr (Div (Num A) SymS)
      else if signal_type = ''pulse'' then
        (let a = dict_get p ''a'' (1 / 1000)
         in Inr (Mul (Div (Num A) SymS) (Sub (Num 1) (Exp (Mul (Num (- a)) SymS)))))
      else if signal_type = ''ramp'' then Inr (Div (Num A) (Pow SymS 2))
      else if signal_type = ''delayed'' then
        (let t0 = dict_get p ''t0'' (1 / 1000)
         in Inr (Mul (Div (Num A) SymS) (Exp (Mul (Num (- t0)) SymS))))
      else if signal_type = ''impulse'' then Inr (Num A)
      else Inl (ValueError signal_type))"

definition numerical_inverse_laplace :: "expr \<Rightarrow> real \<Rightarrow> real \<Rightarrow> real \<Rightarrow> expr" where
  "numerical_inverse_laplace I_s R L C = I_s"

definition get_duration :: "string \<Rightarrow> params \<Rightarrow> real" where
  "get_duration signal_type p =
     (if signal_type = ''pulse'' then max (dict_get p ''a'' (1 / 1000) * 10) (1 / 100)
      else if signal_type = ''delayed'' then max (dict_get p ''t0'' (1 / 1000) * 10) (1 / 100)
      else 2 / 100)"

subsection \<open>External libraries\<close>

text \<open>
  SymPy is not part of the repository: the solver is modelled over any behaviour of the
  three SymPy functions it calls, each of which may raise. \<open>sp_lambdify ext e\<close> is
  \<^verbatim>\<open>sp.lambdify(self.t, e, modules=['numpy'])\<close>; the function it returns gives, at a
  time, a real or a complex value, or raises.
\<close>

datatype npvalue = RealVal npfloat | ComplexVal npfloat npfloat

record sympy =
  sp_simplify :: "expr \<Rightarrow> py_error + expr"
  sp_inverse_laplace_transform :: "expr \<Rightarrow> py_error + expr"
  sp_lambdify :: "expr \<Rightarrow> py_error + (real \<Rightarrow> py_error + npvalue)"

fun is_complex :: "npvalue \<Rightarrow> bool" where
  "is_complex (RealVal x) = False"
| "is_complex (ComplexVal re im) = True"

definition np_iscomplexobj :: "npvalue list \<Rightarrow> bool" where
  "np_iscomplexobj vs = list_ex is_complex vs"

fun np_real :: "npvalue \<Rightarrow> npfloat" where
  "np_real (RealVal x) = x"
| "np_real (ComplexVal re im) = re"

text \<open>\<^verbatim>\<open>np.linspace(start, stop, num)\<close> for \<open>num \<ge> 2\<close>.\<close>

definition np_linspace :: "real \<Rightarrow> real \<Rightarrow> nat \<Rightarrow> real list" where
  "np_linspace start stop num =
     map (\<lambda>k. start + real k * ((stop - start) / real (num - 1))) [0..<num]"

text \<open>
  \<^verbatim>\<open>np.gradient(f, x)\<close> with a coordinate array and the default edge order: central
  differences inside (the uniform formula when all spacings are equal), one-sided
  differences at both ends.
\<close>

definition np_gradient :: "npfloat list \<Rightarrow> real list \<Rightarrow> py_error + npfloat list" where
  "np_gradient f x =
     (let n = length f in
      if length x \<noteq> n then Inl (OtherError ''ValueError'')
      else if n < 2 then Inl (OtherError ''ValueError'')
      else
        let dx = (\<lambda>i. x ! (i + 1) - x ! i);
            uniform = list_all (\<lambda>i. dx i = dx 0) [0..<n - 1];
            interior = (\<lambda>i.
              if uniform then np_div (np_sub (f ! (i + 1)) (f ! (i - 1))) (Fin (2 * dx 0))
              else
                let dx1 = dx (i - 1); dx2 = dx i;
                    a = np_div (Fin (- dx2)) (Fin (dx1 * (dx1 + dx2)));
                    b = np_div (Fin (dx2 - dx1)) (Fin (dx1 * dx2));
                    c = np_div (Fin dx1) (Fin (dx2 * (dx1 + dx2)))
                in np_add (np_add (np_mul a (f ! (i - 1))) (np_mul b (f ! i)))
                     (np_mul c (f ! (i + 1))));
            first = np_div (np_sub (f ! 1) (f ! 0)) (Fin (dx 0));
            final = np_div (np_sub (f ! (n - 1)) (f ! (n - 2))) (Fin (dx (n - 2)))
        in Inr (map (\<lambda>i. if i = 0 then first else if i = n - 1 then final else interior i)
                  [0..<n]))"

subsection \<open>The solver\<close>

text \<open>
  The loop of \<^verbatim>\<open>_numerical_simulation\<close> over \<^verbatim>\<open>range(1, n)\<close>, on the two arrays
  \<^verbatim>\<open>i\<close> and \<^verbatim>\<open>v_c\<close>. Reading \<^verbatim>\<open>input_signal[k-1]\<close> past the end raises.
\<close>

fun euler_loop ::
  "nat list \<Rightarrow> npfloat list \<Rightarrow> real \<Rightarrow> real \<Rightarrow> real \<Rightarrow> real \<Rightarrow>
   npfloat list \<times> npfloat list \<Rightarrow> py_error + npfloat list \<times> npfloat list" where
  "euler_loop [] input_signal dt R L C (i, v_c) = Inr (i, v_c)"
| "euler_loop (k # ks) input_signal dt R L C (i, v_c) =
     (if length input_signal \<le> k - 1 then Inl IndexError
      else
        let di_dt = np_div (np_sub (np_sub (input_signal ! (k - 1))
                                      (np_mul (Fin R) (i ! (k - 1)))) (v_c ! (k - 1))) (Fin L);
            i' = i[k := np_add (i ! (k - 1)) (np_mul di_dt (Fin dt))];
            dv_c_dt = np_div (i' ! (k - 1)) (Fin C);
            v_c' = v_c[k := np_add (v_c ! (k - 1)) (np_mul dv_c_dt (Fin dt))]
        in euler_loop ks input_signal dt R L C (i', v_c'))"

definition numerical_simulation ::
  "real list \<Rightarrow> npfloat list \<Rightarrow> real \<Rightarrow> real \<Rightarrow> real \<Rightarrow> py_error + npfloat list" where
  "numerical_simulation time_array input_signal R L C =
     (if length time_array < 2 then Inl IndexError
      else
        let dt = time_array ! 1 - time_array ! 0;
            n = length time_array;
            i = replicate n (Fin 0);
            v_c = replicate n (Fin 0)
        in case euler_loop [1..<n] input_signal dt R L C (i, v_c) of
             Inl e \<Rightarrow> Inl e
           | Inr (i', v_c') \<Rightarrow> Inr i')"

text \<open>The list comprehension \<^verbatim>\<open>[i_func(t_val) for t_val in time_array]\<close>.\<close>

fun eval_all :: "(real \<Rightarrow> py_error + npvalue) \<Rightarrow> real list \<Rightarrow> py_error + npvalue list" where
  "eval_all i_func [] = Inr []"
| "eval_all i_func (t_val # ts) =
     (case i_func t_val of
        Inl e \<Rightarrow> Inl e
      | Inr v \<Rightarrow> (case eval_all i_func ts of Inl e \<Rightarrow> Inl e | Inr vs \<Rightarrow> Inr (v # vs)))"

text \<open>
  The body of the \<^verbatim>\<open>try\<close> block of \<^verbatim>\<open>_generate_numerical_solution\<close>: \<open>Inl\<close> when it
  raises. The array built from real values is real; one complex value makes it complex.
\<close>

definition try_evaluate :: "sympy \<Rightarrow> expr \<Rightarrow> real list \<Rightarrow> py_error + npfloat list" where
  "try_evaluate ext i_t time_array =
     (case sp_lambdify ext i_t of
        Inl e \<Rightarrow> Inl e
      | Inr i_func \<Rightarrow>
          (case eval_all i_func time_array of
             Inl e \<Rightarrow> Inl e
           | Inr current_array \<Rightarrow>
               if np_iscomplexobj current_array then Inr (map np_real current_array)
               else Inr (map np_real current_array)))"

definition generate_numerical_solution ::
  "sympy \<Rightarrow> expr \<Rightarrow> string \<Rightarrow> params \<Rightarrow> real \<Rightarrow> real \<Rightarrow> real \<Rightarrow>
   py_error + real list \<times> npfloat list \<times> npfloat list" where
  "generate_numerical_solution ext i_t signal_type signal_params R L C =
     (let duration = get_duration signal_type signal_params;
          time_array = np_linspace 0 duration 2000
      in case generate_signal signal_type signal_params time_array of
           Inl e \<Rightarrow> Inl e
         | Inr input_signal_array \<Rightarrow>
             (case try_evaluate ext i_t time_array of
                Inr current_array \<Rightarrow> Inr (time_array, current_array, input_signal_array)
              | Inl e \<Rightarrow>
                  (case numerical_simulation time_array input_signal_array R L C of
                     Inl e' \<Rightarrow> Inl e'
                   | Inr current_array \<Rightarrow>
                       Inr (time_array, current_array, input_signal_array))))"

definition calculate_voltage_L ::
  "real list \<Rightarrow> npfloat list \<Rightarrow> real \<Rightarrow> py_error + npfloat list" where
  "calculate_voltage_L time current L =
     (case np_gradient current time of
        Inl e \<Rightarrow> Inl e
      | Inr di_dt \<Rightarrow> Inr (map (\<lambda>d. np_mul (Fin L) d) di_dt))"

text \<open>The loop of \<^verbatim>\<open>_calculate_voltage_C\<close> over \<^verbatim>\<open>range(1, len(current))\<close>.\<close>

fun trapezoid_loop ::
  "nat list \<Rightarrow> npfloat list \<Rightarrow> real \<Rightarrow> real \<Rightarrow> npfloat list \<Rightarrow> npfloat list" where
  "trapezoid_loop [] current dt C v_c = v_c"
| "trapezoid_loop (i # is) current dt C v_c =
     trapezoid_loop is current dt C
       (v_c[i := np_add (v_c ! (i - 1))
                   (np_div (np_mul (np_div (np_add (current ! i) (current ! (i - 1))) (Fin 2))
                              (Fin dt)) (Fin C))])"

definition calculate_voltage_C ::
  "real list \<Rightarrow> npfloat list \<Rightarrow> real \<Rightarrow> py_error + npfloat list" where
  "calculate_voltage_C time current C =
     (if length time < 2 then Inl IndexError
      else
        let dt = time ! 1 - time ! 0;
            v_c = np_zeros_like current
        in Inr (trapezoid_loop [1..<length current] current dt C v_c))"

record solution =
  sol_symbolic :: expr
  sol_time :: "real list"
  sol_current :: "npfloat list"
  sol_voltage_R :: "npfloat list"
  sol_voltage_L :: "npfloat list"
  sol_voltage_C :: "npfloat list"
  sol_input_signal :: "npfloat list"

text \<open>
  The \<^verbatim>\<open>try\<close> block of \<^verbatim>\<open>solve\<close>: the inverse transform, simplified; when either call
  raises, \<^verbatim>\<open>_numerical_inverse_laplace\<close>.
\<close>

definition invert_or_fallback :: "sympy \<Rightarrow> expr \<Rightarrow> real \<Rightarrow> real \<Rightarrow> real \<Rightarrow> expr" where
  "invert_or_fallback ext I_s R L C =
     (case sp_inverse_laplace_transform ext I_s of
        Inl e \<Rightarrow> numerical_inverse_laplace I_s R L C
      | Inr i_t \<Rightarrow>
          (case sp_simplify ext i_t of
             Inl e \<Rightarrow> numerical_inverse_laplace I_s R L C
           | Inr i_t' \<Rightarrow> i_t'))"

definition solve :: "sympy \<Rightarrow> RLCModel \<Rightarrow> string \<Rightarrow> params \<Rightarrow> py_error + solution" where
  "solve ext rlc_model signal_type signal_params =
     (let R = model_R rlc_model; L = model_L rlc_model; C = model_C rlc_model in
      case get_signal_laplace signal_type signal_params of
        Inl e \<Rightarrow> Inl e
      | Inr V_s \<Rightarrow>
          let Z_s = Add (Add (Num R) (Mul SymS (Num L))) (Div (Num 1) (Mul SymS (Num C)))
          in case sp_simplify ext (Div V_s Z_s) of
               Inl e \<Rightarrow> Inl e
             | Inr I_s \<Rightarrow>
                 let i_t = invert_or_fallback ext I_s R L C
                 in case generate_numerical_solution ext i_t signal_type signal_params R L C of
                      Inl e \<Rightarrow> Inl e
                    | Inr (time_array, current_array, input_signal_array) \<Rightarrow>
                        let voltage_R = map (\<lambda>c. np_mul c (Fin R)) current_array
                        in case calculate_voltage_L time_array current_array L of
                             Inl e \<Rightarrow> Inl e
                           | Inr voltage_L \<Rightarrow>
                               (case calculate_voltage_C time_array current_array C of
                                  Inl e \<Rightarrow> Inl e
                                | Inr voltage_C \<Rightarrow>
                                    Inr \<lparr>sol_symbolic = i_t, sol_time = time_array,
                                         sol_current = current_array,
                                         sol_voltage_R = voltage_R,
                                         sol_voltage_L = voltage_L,
                                         sol_voltage_C = voltage_C,
                                         sol_input_signal = input_signal_array\<rparr>))"

section \<open>ui/main\_window.py\<close>

text \<open>
  \<^verbatim>\<open>MainWindow.simulate\<close> on the parameters read from the form: a warning box and an
  early return when a circuit value is not positive, before any model is built; an
  error box for any exception; the solution shown otherwise.
\<close>

datatype ui_outcome = Warning_box | Critical_box py_error | Information_box solution

definition simulate :: "sympy \<Rightarrow> real \<Rightarrow> real \<Rightarrow> real \<Rightarrow> string \<Rightarrow> params \<Rightarrow> ui_outcome" where
  "simulate ext R L C signal_type signal_params =
     (if R \<le> 0 \<or> L \<le> 0 \<or> C \<le> 0 then Warning_box
      else case RLCModel_init R L C of
             Inl e \<Rightarrow> Critical_box e
           | Inr rlc_model \<Rightarrow>
               (case solve ext rlc_model signal_type signal_params of
                  Inl e \<Rightarrow> Critical_box e
                | Inr sol \<Rightarrow> Information_box sol))"

section \<open>The Euler scheme as the specification states it\<close>

text \<open>
  The pair \<open>(i[k], v_C[k])\<close> of the specification: both zero at \<open>k = 0\<close>, and
  \<open>i[k] = i[k-1] + dt (V_in[k-1] - R i[k-1] - v_C[k-1]) / L\<close>,
  \<open>v_C[k] = v_C[k-1] + dt i[k-1] / C\<close>.
\<close>

fun euler_spec :: "(nat \<Rightarrow> real) \<Rightarrow> real \<Rightarrow> real \<Rightarrow> real \<Rightarrow> real \<Rightarrow> nat \<Rightarrow> real \<times> real" where
  "euler_spec V_in dt R L C 0 = (0, 0)"
| "euler_spec V_in dt R L C (Suc k) =
     (let (i, v_c) = euler_spec V_in dt R L C k
      in (i + dt * (V_in k - R * i - v_c) / L, v_c + dt * i / C))"

section \<open>Example inputs\<close>

text \<open>
  A circuit with \<open>R = L = C = 1\<close>, as the constructor builds it, and three behaviours of
  SymPy: the inverse transform raises and the un-inverted expression cannot be evaluated
  (its symbol \<^verbatim>\<open>s\<close> is unbound); every evaluation gives \<^verbatim>\<open>nan\<close> without raising;
  every evaluation gives the complex value \<open>2 + 3j\<close>.
\<close>

definition example_model :: RLCModel where
  "example_model = \<lparr>model_R = 1, model_L = 1, model_C = 1, omega_0 = Fin 1, zeta = Fin (1 / 2),
     f_0 = Fin (1 / (2 * pi)), damping_type = Subamortiguado, omega_d = Fin (sqrt (3 / 4))\<rparr>"

definition sympy_inversion_fails :: sympy where
  "sympy_inversion_fails = \<lparr>sp_simplify = Inr,
     sp_inverse_laplace_transform = (\<lambda>e. Inl (OtherError ''NotImplementedError'')),
     sp_lambdify = (\<lambda>e. Inr (\<lambda>t. Inl (OtherError ''NameError'')))\<rparr>"

definition sympy_nan :: sympy where
  "sympy_nan = \<lparr>sp_simplify = Inr, sp_inverse_laplace_transform = Inr,
     sp_lambdify = (\<lambda>e. Inr (\<lambda>t. Inr (RealVal NaN)))\<rparr>"

definition sympy_complex :: sympy where
  "sympy_complex = \<lparr>sp_simplify = Inr, sp_inverse_laplace_transform = Inr,
     sp_lambdify = (\<lambda>e. Inr (\<lambda>t. Inr (ComplexVal (Fin 2) (Fin 3))))\<rparr>"

section \<open>Auxiliary facts\<close>

subsection \<open>The circuit model\<close>

lemma RLCModel_init_positive:
  assumes "0 < L" "0 < C"
  shows "RLCModel_init R L C =
     Inr \<lparr>model_R = R, model_L = L, model_C = C,
          omega_0 = Fin (1 / sqrt (L * C)),
          zeta = Fin ((R / 2) * sqrt (C / L)),
          f_0 = Fin (1 / sqrt (L * C) / (2 * pi)),
          damping_type =
            (if (R / 2) * sqrt (C / L) < 1 then Subamortiguado
             else if (R / 2) * sqrt (C / L) = 1 then Criticamente_amortiguado
             else Sobreamortiguado),
          omega_d =
            (if (R / 2) * sqrt (C / L) < 1
             then np_mul (Fin (1 / sqrt (L * C)))
                    (np_sqrt (Fin (1 - ((R / 2) * sqrt (C / L)) * ((R / 2) * sqrt (C / L)))))
             else Fin 0)\<rparr>"
proof -
  have n1: "\<not> L * C < 0" using assms by (simp add: not_less)
  have n2: "\<not> C / L < 0" using assms by (simp add: not_less)
  have s: "sqrt (L * C) \<noteq> 0" "L \<noteq> 0" using assms by simp_all
  show ?thesis
    using n1 n2 s by (simp add: RLCModel_init_def Let_def np_sub_def)
qed

lemma example_model_init: "RLCModel_init 1 1 1 = Inr example_model"
  using RLCModel_init_positive [of 1 1 1] 
  by (simp add: example_model_def)

subsection \<open>Sampled signals\<close>

lemma mask_set_map:
  "mask_set (map f t) (map g t) v = map (\<lambda>x. if g x then v else f x) t"
  by (induction t) (simp_all add: mask_set_def)

lemma np_zeros_like_map: "np_zeros_like t = map (\<lambda>x. Fin 0) t"
  by (simp add: np_zeros_like_def map_replicate_const)

lemma length_mask_set: "length (mask_set s m v) = min (length s) (length m)"
  by (simp add: mask_set_def)

lemma pulse_signal_pointwise:
  "pulse_signal p t =
     map (\<lambda>x. if 0 \<le> x \<and> x < dict_get p ''a'' (1 / 1000)
               then Fin (dict_get p ''amplitude'' 1) else Fin 0) t"
proof -
  have "pulse_signal p t =
     map (\<lambda>x. if dict_get p ''a'' (1 / 1000) \<le> x then Fin 0
               else if 0 \<le> x then Fin (dict_get p ''amplitude'' 1) else Fin 0) t"
    by (simp add: pulse_signal_def Let_def np_zeros_like_map mask_set_map)
  also have "\<dots> = map (\<lambda>x. if 0 \<le> x \<and> x < dict_get p ''a'' (1 / 1000)
               then Fin (dict_get p ''amplitude'' 1) else Fin 0) t"
    by (rule map_cong) auto
  finally show ?thesis .
qed

lemma impulse_signal_uniform:
  assumes "0 < dt" "2 \<le> n"
  shows "impulse_signal p (map (\<lambda>k. real k * dt) [0..<n]) =
     map (\<lambda>k. if k = 0 then Fin (dict_get p ''amplitude'' 1 / (2 * dt)) else Fin 0) [0..<n]"
proof -
  let ?t = "map (\<lambda>k. real k * dt) [0..<n]"
  have len: "length ?t > 1" using assms by simp
  have d: "?t ! 1 - ?t ! 0 = dt" using assms by simp
  have m: "\<And>k. (\<bar>real k * dt\<bar> < dt) = (k = 0)"
    using assms(1) by (auto simp: abs_mult)
  have "impulse_signal p ?t =
     mask_set (map (\<lambda>x. Fin 0) ?t) (map (\<lambda>x. \<bar>x\<bar> < dt) ?t)
       (np_div (Fin (dict_get p ''amplitude'' 1)) (Fin (dt * 2)))"
    unfolding impulse_signal_def Let_def np_zeros_like_map using len d by simp
  also have "\<dots> = map (\<lambda>x. if \<bar>x\<bar> < dt then np_div (Fin (dict_get p ''amplitude'' 1)) (Fin (dt * 2)) else Fin 0) ?t"
    by (rule mask_set_map)
  also have "\<dots> = map (\<lambda>k. if k = 0 then Fin (dict_get p ''amplitude'' 1 / (2 * dt)) else Fin 0) [0..<n]"
    using assms(1) by (simp add: m mult.commute)
  finally show ?thesis .
qed

lemma generate_signal_length:
  "generate_signal signal_type p t = Inr inp \<Longrightarrow> length inp = length t"
  by (auto simp: generate_signal_def step_signal_def pulse_signal_def ramp_signal_def
      delayed_signal_def impulse_signal_def Let_def length_mask_set np_zeros_like_def
      split: if_splits)

lemma generate_signal_known:
  "get_signal_laplace signal_type p = Inr V_s \<Longrightarrow> \<exists>inp. generate_signal signal_type p' t = Inr inp"
  by (auto simp: get_signal_laplace_def generate_signal_def Let_def split: if_splits)

subsection \<open>The Euler loop\<close>

lemma euler_loop_spec:
  assumes LC: "L \<noteq> 0" "C \<noteq> 0" and inp: "n \<le> Suc (length V_in)"
  shows "1 \<le> k0 \<Longrightarrow> k0 \<le> n \<Longrightarrow> length i = n \<Longrightarrow> length v = n \<Longrightarrow>
     (\<forall>j<k0. i ! j = Fin (fst (euler_spec (\<lambda>j. V_in ! j) dt R L C j))
           \<and> v ! j = Fin (snd (euler_spec (\<lambda>j. V_in ! j) dt R L C j))) \<Longrightarrow>
     \<exists>i' v'. euler_loop [k0..<n] (map Fin V_in) dt R L C (i, v) = Inr (i', v')
        \<and> length i' = n
        \<and> (\<forall>j<n. i' ! j = Fin (fst (euler_spec (\<lambda>j. V_in ! j) dt R L C j)))"
proof (induction "n - k0" arbitrary: k0 i v)
  case 0
  then have "k0 = n" by simp
  with 0 show ?case by simp
next
  case (Suc d)
  let ?E = "euler_spec (\<lambda>j. V_in ! j) dt R L C"
  from Suc.hyps(2) Suc.prems have lt: "k0 < n" by simp
  obtain k where k: "k0 = Suc k" using Suc.prems(1) by (cases k0) auto
  have kin: "k < length V_in" using lt k inp by simp
  have ik: "i ! k = Fin (fst (?E k))" and vk: "v ! k = Fin (snd (?E k))"
    using Suc.prems(5) k by auto
  define di where "di = np_div (np_sub (np_sub (map Fin V_in ! k) (np_mul (Fin R) (i ! k))) (v ! k)) (Fin L)"
  define i1 where "i1 = i[k0 := np_add (i ! k) (np_mul di (Fin dt))]"
  define v1 where "v1 = v[k0 := np_add (v ! k) (np_mul (np_div (i1 ! k) (Fin C)) (Fin dt))]"
  have di: "di = Fin ((V_in ! k - R * fst (?E k) - snd (?E k)) / L)"
    using LC kin by (simp add: di_def ik vk np_sub_def)
  have i1k: "i1 ! k = Fin (fst (?E k))"
    using k ik by (simp add: i1_def)
  have i1k0: "i1 ! k0 = Fin (fst (?E k0))"
    using lt Suc.prems(3) k
    by (simp add: i1_def ik di case_prod_unfold Let_def algebra_simps)
  have v1k0: "v1 ! k0 = Fin (snd (?E k0))"
    using lt Suc.prems(4) k LC
    by (simp add: v1_def vk i1k case_prod_unfold Let_def algebra_simps)
  have step: "euler_loop [k0..<n] (map Fin V_in) dt R L C (i, v)
            = euler_loop [Suc k0..<n] (map Fin V_in) dt R L C (i1, v1)"
    using lt kin k by (simp add: upt_conv_Cons Let_def di_def i1_def v1_def)
  have inv: "\<forall>j<Suc k0. i1 ! j = Fin (fst (?E j)) \<and> v1 ! j = Fin (snd (?E j))"
  proof (intro allI impI)
    fix j assume "j < Suc k0"
    then consider "j = k0" | "j < k0" by linarith
    then show "i1 ! j = Fin (fst (?E j)) \<and> v1 ! j = Fin (snd (?E j))"
    proof cases
      case 1 then show ?thesis using i1k0 v1k0 by simp
    next
      case 2 then show ?thesis using Suc.prems(5) by (simp add: i1_def v1_def)
    qed
  qed
  have "\<exists>i' v'. euler_loop [Suc k0..<n] (map Fin V_in) dt R L C (i1, v1) = Inr (i', v')
        \<and> length i' = n \<and> (\<forall>j<n. i' ! j = Fin (fst (?E j)))"
  proof (rule Suc.hyps(1))
    show "d = n - Suc k0" using Suc.hyps(2) by simp
    show "1 \<le> Suc k0" by simp
    show "Suc k0 \<le> n" using lt by simp
    show "length i1 = n" using Suc.prems(3) by (simp add: i1_def)
    show "length v1 = n" using Suc.prems(4) by (simp add: v1_def)
    show "\<forall>j<Suc k0. i1 ! j = Fin (fst (?E j)) \<and> v1 ! j = Fin (snd (?E j))" by (rule inv)
  qed
  then show ?case using step by simp
qed

lemma numerical_simulation_spec:
  assumes "L \<noteq> 0" "C \<noteq> 0" "2 \<le> length time_array" "length time_array \<le> Suc (length V_in)"
  shows "numerical_simulation time_array (map Fin V_in) R L C =
     Inr (map (\<lambda>k. Fin (fst (euler_spec (\<lambda>j. V_in ! j) (time_array ! 1 - time_array ! 0) R L C k)))
            [0..<length time_array])"
proof -
  let ?n = "length time_array"
  let ?dt = "time_array ! 1 - time_array ! 0"
  let ?E = "euler_spec (\<lambda>j. V_in ! j) ?dt R L C"
  have "\<exists>i' v'. euler_loop [1..<?n] (map Fin V_in) ?dt R L C (replicate ?n (Fin 0), replicate ?n (Fin 0))
          = Inr (i', v') \<and> length i' = ?n \<and> (\<forall>j<?n. i' ! j = Fin (fst (?E j)))"
  proof (rule euler_loop_spec)
    show "\<forall>j<1. replicate ?n (Fin 0) ! j = Fin (fst (?E j))
               \<and> replicate ?n (Fin 0) ! j = Fin (snd (?E j))"
    proof -
      have "0 < ?n" using assms(3) by linarith
      then show ?thesis by simp
    qed
  qed (use assms in simp_all)
  then obtain i' v' where r: "euler_loop [1..<?n] (map Fin V_in) ?dt R L C (replicate ?n (Fin 0), replicate ?n (Fin 0)) = Inr (i', v')"
    and l: "length i' = ?n" and e: "\<forall>j<?n. i' ! j = Fin (fst (?E j))" by blast
  have "i' = map (\<lambda>k. Fin (fst (?E k))) [0..<?n]"
    using l e by (intro nth_equalityI) auto
  then show ?thesis
    using assms(3) r by (simp add: numerical_simulation_def Let_def)
qed

lemma euler_loop_total:
  "\<forall>k\<in>set ks. k - 1 < length inp \<Longrightarrow>
     \<exists>i' v'. euler_loop ks inp dt R L C (i, v) = Inr (i', v') \<and> length i' = length i"
proof (induction ks arbitrary: i v)
  case Nil
  then show ?case by simp
next
  case (Cons k ks)
  define i1 where "i1 = i[k := np_add (i ! (k - 1))
     (np_mul (np_div (np_sub (np_sub (inp ! (k - 1)) (np_mul (Fin R) (i ! (k - 1))))
        (v ! (k - 1))) (Fin L)) (Fin dt))]"
  define v1 where "v1 = v[k := np_add (v ! (k - 1))
     (np_mul (np_div (i1 ! (k - 1)) (Fin C)) (Fin dt))]"
  have ks: "\<forall>k\<in>set ks. k - 1 < length inp" and k: "\<not> length inp \<le> k - 1"
    using Cons.prems by auto
  obtain i' v' where r: "euler_loop ks inp dt R L C (i1, v1) = Inr (i', v')"
      "length i' = length i1"
    using Cons.IH [OF ks, of i1 v1] by blast
  have "euler_loop (k # ks) inp dt R L C (i, v) = euler_loop ks inp dt R L C (i1, v1)"
    using k by (simp add: Let_def i1_def v1_def)
  then show ?case using r by (simp add: i1_def)
qed

lemma numerical_simulation_total:
  assumes "2 \<le> length t" "length t \<le> Suc (length inp)"
  shows "\<exists>c. numerical_simulation t inp R L C = Inr c \<and> length c = length t"
proof -
  have "\<forall>k\<in>set [1..<length t]. k - 1 < length inp" using assms by auto
  from euler_loop_total [OF this, of "t ! 1 - t ! 0" R L C
      "replicate (length t) (Fin 0)" "replicate (length t) (Fin 0)"]
  obtain i' v' where "euler_loop [1..<length t] inp (t ! 1 - t ! 0) R L C
       (replicate (length t) (Fin 0), replicate (length t) (Fin 0)) = Inr (i', v')"
     "length i' = length t" by auto
  then show ?thesis using assms(1) by (simp add: numerical_simulation_def Let_def)
qed

lemma euler_loop_keeps_0:
  "\<forall>k\<in>set ks. 1 \<le> k \<Longrightarrow> euler_loop ks inp dt R L C (i, v) = Inr (i', v') \<Longrightarrow> i' ! 0 = i ! 0"
proof (induction ks arbitrary: i v)
  case Nil
  then show ?case by simp
next
  case (Cons k ks)
  from Cons.prems(2) obtain i1 v1 where
    s: "euler_loop ks inp dt R L C (i1, v1) = Inr (i', v')" and u: "\<exists>x. i1 = i[k := x]"
    by (auto simp: Let_def split: if_splits)
  have "i' ! 0 = i1 ! 0" using Cons.IH [OF _ s] Cons.prems(1) by simp
  moreover have "i1 ! 0 = i ! 0" using u Cons.prems(1) by auto
  ultimately show ?case by simp
qed

lemma numerical_simulation_starts_at_0:
  assumes "numerical_simulation t inp R L C = Inr c"
  shows "c ! 0 = Fin 0"
proof -
  from assms have len: "2 \<le> length t"
    by (auto simp: numerical_simulation_def split: if_splits)
  from assms len obtain v' where
    "euler_loop [1..<length t] inp (t ! 1 - t ! 0) R L C
       (replicate (length t) (Fin 0), replicate (length t) (Fin 0)) = Inr (c, v')"
    by (auto simp: numerical_simulation_def Let_def split: sum.splits)
  then have "c ! 0 = replicate (length t) (Fin 0) ! 0"
    by (rule euler_loop_keeps_0 [rotated]) simp
  moreover have "0 < length t" using len by linarith
  ultimately show ?thesis by simp
qed

subsection \<open>Evaluation of the closed form\<close>

lemma eval_all_Inr: "eval_all f ts = Inr vs \<longleftrightarrow> map f ts = map Inr vs"
proof (induction ts arbitrary: vs)
  case Nil
  then show ?case by auto
next
  case (Cons a ts)
  show ?case
  proof (cases "f a")
    case (Inl e)
    then show ?thesis by (cases vs) auto
  next
    case (Inr v)
    show ?thesis
    proof (cases "eval_all f ts")
      case (Inl e)
      then have "\<And>ws. map f ts \<noteq> map Inr ws" using Cons.IH by auto
      with Inl Inr show ?thesis by (cases vs) auto
    next
      case r: (Inr ws)
      then have "map f ts = map Inr ws" using Cons.IH by simp
      with r Inr show ?thesis by (cases vs) (auto simp: inj_map_eq_map [OF inj_Inr])
    qed
  qed
qed

lemma eval_all_total: "eval_all (\<lambda>t. Inr (g t)) ts = Inr (map g ts)"
  by (induction ts) simp_all

lemma try_evaluate_Inr:
  "try_evaluate ext i_t t = Inr cur \<longleftrightarrow>
     (\<exists>f vals. sp_lambdify ext i_t = Inr f \<and> map f t = map Inr vals \<and> cur = map np_real vals)"
proof (cases "sp_lambdify ext i_t")
  case (Inl e)
  then show ?thesis by (simp add: try_evaluate_def)
next
  case (Inr f)
  show ?thesis
  proof (cases "eval_all f t")
    case (Inl e)
    then have "\<And>ws. map f t \<noteq> map Inr ws" using eval_all_Inr [of f t] by auto
    with Inl Inr show ?thesis by (simp add: try_evaluate_def)
  next
    case r: (Inr ws)
    then have "map f t = map Inr ws" using eval_all_Inr by blast
    with r Inr show ?thesis
      by (auto simp: try_evaluate_def inj_map_eq_map [OF inj_Inr])
  qed
qed

lemma try_evaluate_Inl:
  "(\<exists>e. try_evaluate ext i_t t = Inl e) \<longleftrightarrow>
     ((\<exists>e. sp_lambdify ext i_t = Inl e)
      \<or> (\<exists>f e. sp_lambdify ext i_t = Inr f \<and> eval_all f t = Inl e))"
  by (auto simp: try_evaluate_def split: sum.splits)

lemma try_evaluate_length: "try_evaluate ext i_t t = Inr cur \<Longrightarrow> length cur = length t"
  by (auto simp: try_evaluate_Inr dest: map_eq_imp_length_eq)

subsection \<open>The result bundle\<close>

lemma np_gradient_total:
  "length x = length f \<Longrightarrow> 2 \<le> length f \<Longrightarrow>
     \<exists>g. np_gradient f x = Inr g \<and> length g = length f"
  by (simp add: np_gradient_def Let_def)

lemma trapezoid_loop_length: "length (trapezoid_loop ks cur dt C v) = length v"
  by (induction ks arbitrary: v) simp_all

lemma calculate_voltage_C_total:
  "2 \<le> length t \<Longrightarrow> \<exists>v. calculate_voltage_C t cur C = Inr v \<and> length v = length cur"
  by (simp add: calculate_voltage_C_def Let_def trapezoid_loop_length np_zeros_like_def)

lemma length_np_linspace: "length (np_linspace a b n) = n"
  by (simp add: np_linspace_def)

lemma generate_numerical_solution_total:
  assumes "get_signal_laplace signal_type p = Inr V_s"
  shows "\<exists>inp cur. generate_numerical_solution ext i_t signal_type p R L C
            = Inr (np_linspace 0 (get_duration signal_type p) 2000, cur, inp)
         \<and> generate_signal signal_type p (np_linspace 0 (get_duration signal_type p) 2000) = Inr inp
         \<and> length inp = 2000 \<and> length cur = 2000
         \<and> (try_evaluate ext i_t (np_linspace 0 (get_duration signal_type p) 2000) = Inr cur
            \<or> (\<exists>e. try_evaluate ext i_t (np_linspace 0 (get_duration signal_type p) 2000) = Inl e)
               \<and> numerical_simulation (np_linspace 0 (get_duration signal_type p) 2000) inp R L C = Inr cur)"
proof -
  let ?t = "np_linspace 0 (get_duration signal_type p) 2000"
  obtain inp where inp: "generate_signal signal_type p ?t = Inr inp"
    using generate_signal_known [OF assms] by blast
  have li: "length inp = 2000"
    using generate_signal_length [OF inp] by (simp add: length_np_linspace)
  show ?thesis
  proof (cases "try_evaluate ext i_t ?t")
    case (Inr cur)
    then show ?thesis
      using inp li try_evaluate_length [OF Inr]
      by (simp add: generate_numerical_solution_def Let_def length_np_linspace)
  next
    case (Inl e)
    obtain cur where c: "numerical_simulation ?t inp R L C = Inr cur" "length cur = length ?t"
      using numerical_simulation_total [of ?t inp R L C] li
      by (auto simp: length_np_linspace)
    then show ?thesis
      using inp li Inl
      by (simp add: generate_numerical_solution_def Let_def length_np_linspace)
  qed
qed

lemma solve_total:
  assumes V: "get_signal_laplace signal_type p = Inr V_s"
    and I: "sp_simplify ext (Div V_s (Add (Add (Num (model_R m)) (Mul SymS (Num (model_L m))))
                                    (Div (Num 1) (Mul SymS (Num (model_C m)))))) = Inr I_s"
  shows "\<exists>sol. solve ext m signal_type p = Inr sol
     \<and> sol_symbolic sol = invert_or_fallback ext I_s (model_R m) (model_L m) (model_C m)
     \<and> sol_time sol = np_linspace 0 (get_duration signal_type p) 2000
     \<and> generate_signal signal_type p (sol_time sol) = Inr (sol_input_signal sol)
     \<and> (try_evaluate ext (sol_symbolic sol) (sol_time sol) = Inr (sol_current sol)
        \<or> (\<exists>e. try_evaluate ext (sol_symbolic sol) (sol_time sol) = Inl e)
           \<and> numerical_simulation (sol_time sol) (sol_input_signal sol)
                (model_R m) (model_L m) (model_C m) = Inr (sol_current sol))
     \<and> length (sol_time sol) = 2000 \<and> length (sol_current sol) = 2000
     \<and> length (sol_input_signal sol) = 2000 \<and> length (sol_voltage_R sol) = 2000
     \<and> length (sol_voltage_L sol) = 2000 \<and> length (sol_voltage_C sol) = 2000"
proof -
  let ?t = "np_linspace 0 (get_duration signal_type p) 2000"
  let ?i_t = "invert_or_fallback ext I_s (model_R m) (model_L m) (model_C m)"
  obtain inp cur where g: "generate_numerical_solution ext ?i_t signal_type p
        (model_R m) (model_L m) (model_C m) = Inr (?t, cur, inp)"
    and gs: "generate_signal signal_type p ?t = Inr inp"
    and l: "length inp = 2000" "length cur = 2000"
    and tr: "try_evaluate ext ?i_t ?t = Inr cur
            \<or> (\<exists>e. try_evaluate ext ?i_t ?t = Inl e)
               \<and> numerical_simulation ?t inp (model_R m) (model_L m) (model_C m) = Inr cur"
    using generate_numerical_solution_total [OF V] by blast
  obtain vL where vL: "np_gradient cur ?t = Inr vL" "length vL = length cur"
    using np_gradient_total [of ?t cur] l by (auto simp: length_np_linspace)
  obtain vC where vC: "calculate_voltage_C ?t cur (model_C m) = Inr vC" "length vC = length cur"
    using calculate_voltage_C_total [of ?t cur "model_C m"] by (auto simp: length_np_linspace)
  have "solve ext m signal_type p =
      Inr \<lparr>sol_symbolic = ?i_t, sol_time = ?t, sol_current = cur,
           sol_voltage_R = map (\<lambda>c. np_mul c (Fin (model_R m))) cur,
           sol_voltage_L = map (\<lambda>d. np_mul (Fin (model_L m)) d) vL,
           sol_voltage_C = vC, sol_input_signal = inp\<rparr>"
    using V I g vL vC by (simp add: solve_def Let_def calculate_voltage_L_def)
  then show ?thesis
    using gs l tr vL vC by (simp add: length_np_linspace)
qed

lemma solve_Inr_current:
  assumes "solve ext m signal_type p = Inr sol"
  shows "generate_signal signal_type p (sol_time sol) = Inr (sol_input_signal sol)
       \<and> (try_evaluate ext (sol_symbolic sol) (sol_time sol) = Inr (sol_current sol)
        \<or> (\<exists>e. try_evaluate ext (sol_symbolic sol) (sol_time sol) = Inl e)
           \<and> numerical_simulation (sol_time sol) (sol_input_signal sol)
                (model_R m) (model_L m) (model_C m) = Inr (sol_current sol))"
  using assms
  by (auto simp: solve_def Let_def generate_numerical_solution_def split: sum.splits prod.splits)

section \<open>The claims\<close>

subsection \<open>C1: when the current trace is the Euler simulation\<close>

text \<open>
  Claim C1 says that \<^verbatim>\<open>solve\<close> replaces the current trace by the Euler simulation when
  turning \<open>i(t)\<close> into a numeric function or evaluating it on the grid raises, and also
  when the evaluation gives non-finite or complex-only values. The code has no test of
  the values: only an exception reaches the \<^verbatim>\<open>except\<close> branch. With a SymPy whose
  evaluation gives \<^verbatim>\<open>nan\<close> at every grid point without raising, \<^verbatim>\<open>solve\<close> returns a trace
  of 2000 \<^verbatim>\<open>nan\<close>, which is not the Euler simulation on the same grid and input (that one
  starts at 0).
\<close>

theorem C1_counterexample:
  "\<exists>sol. solve sympy_nan example_model ''step'' Map.empty = Inr sol
     \<and> sol_current sol = replicate 2000 NaN
     \<and> (\<exists>euler. numerical_simulation (sol_time sol) (sol_input_signal sol) 1 1 1 = Inr euler
           \<and> euler ! 0 = Fin 0 \<and> euler \<noteq> sol_current sol)"
proof -
  have V: "get_signal_laplace ''step'' Map.empty = Inr (Div (Num 1) SymS)"
    by (simp add: get_signal_laplace_def dict_get_def)
  have I: "sp_simplify sympy_nan
      (Div (Div (Num 1) SymS)
         (Add (Add (Num (model_R example_model)) (Mul SymS (Num (model_L example_model))))
              (Div (Num 1) (Mul SymS (Num (model_C example_model))))))
     = Inr (Div (Div (Num 1) SymS)
         (Add (Add (Num (model_R example_model)) (Mul SymS (Num (model_L example_model))))
              (Div (Num 1) (Mul SymS (Num (model_C example_model))))))"
    by (simp add: sympy_nan_def)
  from solve_total [OF V I] obtain sol where
    s: "solve sympy_nan example_model ''step'' Map.empty = Inr sol"
    and g: "generate_signal ''step'' Map.empty (sol_time sol) = Inr (sol_input_signal sol)"
    and c: "try_evaluate sympy_nan (sol_symbolic sol) (sol_time sol) = Inr (sol_current sol)
        \<or> (\<exists>e. try_evaluate sympy_nan (sol_symbolic sol) (sol_time sol) = Inl e)
           \<and> numerical_simulation (sol_time sol) (sol_input_signal sol)
                (model_R example_model) (model_L example_model) (model_C example_model)
              = Inr (sol_current sol)"
    and l: "length (sol_time sol) = 2000" "length (sol_input_signal sol) = 2000"
    by blast
  have t: "try_evaluate sympy_nan (sol_symbolic sol) (sol_time sol) = Inr (replicate 2000 NaN)"
    using l(1) by (simp add: try_evaluate_def sympy_nan_def eval_all_total map_replicate_const)
  with c have cur: "sol_current sol = replicate 2000 NaN" by auto
  obtain euler where e: "numerical_simulation (sol_time sol) (sol_input_signal sol) 1 1 1 = Inr euler"
    using numerical_simulation_total [of "sol_time sol" "sol_input_signal sol" 1 1 1] l by auto
  have e0: "euler ! 0 = Fin 0" by (rule numerical_simulation_starts_at_0 [OF e])
  have "replicate 2000 NaN ! 0 = NaN" by simp
  with e0 cur have "euler \<noteq> sol_current sol" by auto
  with s cur e e0 show ?thesis by blast
qed

text \<open>
  Claim C1 as amended: in a result of \<^verbatim>\<open>solve\<close>, the input samples are the sampled
  signal on the result's grid; when \<^verbatim>\<open>lambdify\<close> raises, or the evaluation at some grid
  point raises, the current trace is the Euler simulation driven by those input samples;
  and when neither raises, the trace is the pointwise evaluation of the closed form with
  the real part of each value retained, whatever the values are (finite or not, real or
  complex).
\<close>

theorem C1_fallback_only_on_exception:
  assumes "solve ext m signal_type p = Inr sol"
  shows "generate_signal signal_type p (sol_time sol) = Inr (sol_input_signal sol)
     \<and> ((\<exists>e. sp_lambdify ext (sol_symbolic sol) = Inl e)
          \<or> (\<exists>f e. sp_lambdify ext (sol_symbolic sol) = Inr f \<and> eval_all f (sol_time sol) = Inl e)
        \<longrightarrow> numerical_simulation (sol_time sol) (sol_input_signal sol)
               (model_R m) (model_L m) (model_C m) = Inr (sol_current sol))
     \<and> (\<forall>f vals. sp_lambdify ext (sol_symbolic sol) = Inr f
                 \<and> map f (sol_time sol) = map Inr vals
        \<longrightarrow> sol_current sol = map np_real vals)"
proof -
  note c = solve_Inr_current [OF assms]
  have a: "(\<exists>e. sp_lambdify ext (sol_symbolic sol) = Inl e)
          \<or> (\<exists>f e. sp_lambdify ext (sol_symbolic sol) = Inr f \<and> eval_all f (sol_time sol) = Inl e)
        \<Longrightarrow> numerical_simulation (sol_time sol) (sol_input_signal sol)
               (model_R m) (model_L m) (model_C m) = Inr (sol_current sol)"
  proof -
    assume "(\<exists>e. sp_lambdify ext (sol_symbolic sol) = Inl e)
          \<or> (\<exists>f e. sp_lambdify ext (sol_symbolic sol) = Inr f \<and> eval_all f (sol_time sol) = Inl e)"
    then obtain e where "try_evaluate ext (sol_symbolic sol) (sol_time sol) = Inl e"
      using try_evaluate_Inl by blast
    with c show ?thesis by auto
  qed
  have b: "\<And>f vals. sp_lambdify ext (sol_symbolic sol) = Inr f \<Longrightarrow>
       map f (sol_time sol) = map Inr vals \<Longrightarrow> sol_current sol = map np_real vals"
  proof -
    fix f vals
    assume "sp_lambdify ext (sol_symbolic sol) = Inr f" "map f (sol_time sol) = map Inr vals"
    then have "try_evaluate ext (sol_symbolic sol) (sol_time sol) = Inr (map np_real vals)"
      using try_evaluate_Inr by blast
    with c show "sol_current sol = map np_real vals" by auto
  qed
  show ?thesis using c a b by blast
qed

text \<open>
  Both branches at concrete inputs: an evaluation that raises gives the Euler trace, and
  an evaluation that gives \<open>2 + 3j\<close> everywhere gives a trace of 2000 times 2.
\<close>

theorem C1_witness:
  "(\<exists>sol. solve sympy_inversion_fails example_model ''step'' Map.empty = Inr sol
      \<and> numerical_simulation (sol_time sol) (sol_input_signal sol) 1 1 1 = Inr (sol_current sol))
   \<and> (\<exists>sol. solve sympy_complex example_model ''step'' Map.empty = Inr sol
      \<and> sol_current sol = replicate 2000 (Fin 2))"
proof -
  have V: "get_signal_laplace ''step'' Map.empty = Inr (Div (Num 1) SymS)"
    by (simp add: get_signal_laplace_def dict_get_def)
  let ?I = "Div (Div (Num 1) SymS)
         (Add (Add (Num (model_R example_model)) (Mul SymS (Num (model_L example_model))))
              (Div (Num 1) (Mul SymS (Num (model_C example_model)))))"
  have I1: "sp_simplify sympy_inversion_fails ?I = Inr ?I"
    by (simp add: sympy_inversion_fails_def)
  have I2: "sp_simplify sympy_complex ?I = Inr ?I"
    by (simp add: sympy_complex_def)
  from solve_total [OF V I1] obtain sol1 where
    s1: "solve sympy_inversion_fails example_model ''step'' Map.empty = Inr sol1"
    and l1: "length (sol_time sol1) = 2000" by blast
  have f1: "sp_lambdify sympy_inversion_fails (sol_symbolic sol1) = Inr (\<lambda>t. Inl (OtherError ''NameError''))"
    by (simp add: sympy_inversion_fails_def)
  have "sol_time sol1 \<noteq> []" using l1 by auto
  then have r1: "eval_all (\<lambda>t. Inl (OtherError ''NameError'')) (sol_time sol1) = Inl (OtherError ''NameError'')"
    by (cases "sol_time sol1") simp_all
  have "numerical_simulation (sol_time sol1) (sol_input_signal sol1)
      (model_R example_model) (model_L example_model) (model_C example_model)
      = Inr (sol_current sol1)"
    using C1_fallback_only_on_exception [OF s1] f1 r1 by blast
  then have w1: "numerical_simulation (sol_time sol1) (sol_input_signal sol1) 1 1 1
      = Inr (sol_current sol1)"
    by (simp add: example_model_def)
  from solve_total [OF V I2] obtain sol2 where
    s2: "solve sympy_complex example_model ''step'' Map.empty = Inr sol2"
    and l2: "length (sol_time sol2) = 2000" by blast
  have f2: "sp_lambdify sympy_complex (sol_symbolic sol2) = Inr (\<lambda>t. Inr (ComplexVal (Fin 2) (Fin 3)))"
    by (simp add: sympy_complex_def)
  have m2: "map (\<lambda>t. Inr (ComplexVal (Fin 2) (Fin 3))) (sol_time sol2)
          = map Inr (replicate 2000 (ComplexVal (Fin 2) (Fin 3)))"
    using l2 by (simp add: map_replicate_const)
  have "sol_current sol2 = map np_real (replicate 2000 (ComplexVal (Fin 2) (Fin 3)))"
    using C1_fallback_only_on_exception [OF s2] f2 m2 by blast
  then have w2: "sol_current sol2 = replicate 2000 (Fin 2)" by simp
  show ?thesis using s1 w1 s2 w2 by blast
qed

subsection \<open>C2: the transforms of the five signals\<close>

text \<open>
  Claim C2: for every amplitude \<open>A\<close> and kind-specific parameter (the dictionary's
  value, or the default 1 for the amplitude and 0.001 for the width and the delay),
  \<^verbatim>\<open>_get_signal_laplace\<close> returns an expression whose value at every \<open>s\<close> is \<open>A/s\<close> for
  step, \<open>(A/s)(1 - exp(-a s))\<close> for pulse, \<open>A/s\<^sup>2\<close> for ramp, \<open>(A/s) exp(-t0 s)\<close> for
  delayed, and the constant \<open>A\<close> for impulse.
\<close>

theorem C2_signal_transforms:
  "(\<exists>e. get_signal_laplace ''step'' p = Inr e
        \<and> (\<forall>s t. denote e s t = complex_of_real (dict_get p ''amplitude'' 1) / s))
   \<and> (\<exists>e. get_signal_laplace ''pulse'' p = Inr e
        \<and> (\<forall>s t. denote e s t =
              (complex_of_real (dict_get p ''amplitude'' 1) / s)
              * (1 - exp (- (complex_of_real (dict_get p ''a'' (1 / 1000)) * s)))))
   \<and> (\<exists>e. get_signal_laplace ''ramp'' p = Inr e
        \<and> (\<forall>s t. denote e s t = complex_of_real (dict_get p ''amplitude'' 1) / s\<^sup>2))
   \<and> (\<exists>e. get_signal_laplace ''delayed'' p = Inr e
        \<and> (\<forall>s t. denote e s t =
              (complex_of_real (dict_get p ''amplitude'' 1) / s)
              * exp (- (complex_of_real (dict_get p ''t0'' (1 / 1000)) * s))))
   \<and> (\<exists>e. get_signal_laplace ''impulse'' p = Inr e
        \<and> (\<forall>s t. denote e s t = complex_of_real (dict_get p ''amplitude'' 1)))"
  by (simp add: get_signal_laplace_def Let_def)

subsection \<open>C3: circuit values that are not positive\<close>

text \<open>
  Claim C3 says that constructing a circuit model with \<open>R\<close>, \<open>L\<close> or \<open>C\<close> not strictly
  positive raises \<open>InvalidParameter\<close> and produces no model. The constructor validates
  nothing: for the claim's three examples \<open>R = 0\<close>, \<open>L = -1\<close> and \<open>C = 0\<close> it returns a
  model (with \<^verbatim>\<open>nan\<close> or \<^verbatim>\<open>inf\<close> among the derived values of the last two).
\<close>

theorem C3_counterexample:
  "RLCModel_init 0 1 1 =
     Inr \<lparr>model_R = 0, model_L = 1, model_C = 1, omega_0 = Fin 1, zeta = Fin 0,
          f_0 = Fin (1 / (2 * pi)), damping_type = Subamortiguado, omega_d = Fin 1\<rparr>
   \<and> RLCModel_init 1 (- 1) 1 =
     Inr \<lparr>model_R = 1, model_L = - 1, model_C = 1, omega_0 = NaN, zeta = NaN,
          f_0 = NaN, damping_type = Sobreamortiguado, omega_d = Fin 0\<rparr>
   \<and> RLCModel_init 1 1 0 =
     Inr \<lparr>model_R = 1, model_L = 1, model_C = 0, omega_0 = PInf, zeta = Fin 0,
          f_0 = PInf, damping_type = Subamortiguado, omega_d = PInf\<rparr>"
  by (simp add: RLCModel_init_def Let_def np_sub_def)

text \<open>
  Claim C3 as amended: the values are rejected at the caller boundary, not by the
  constructor. \<^verbatim>\<open>MainWindow.simulate\<close> shows a warning and returns before any model is
  built when \<open>R\<close>, \<open>L\<close> or \<open>C\<close> is not strictly positive; the constructor itself returns
  a model holding the given values for every \<open>L \<noteq> 0\<close>, and raises
  \<^verbatim>\<open>ZeroDivisionError\<close> for \<open>L = 0\<close>.
\<close>

theorem C3_validation_at_caller:
  "(R \<le> 0 \<or> L \<le> 0 \<or> C \<le> 0 \<longrightarrow> simulate ext R L C signal_type p = Warning_box)
   \<and> (L \<noteq> 0 \<longrightarrow> (\<exists>m. RLCModel_init R L C = Inr m \<and> model_R m = R \<and> model_L m = L \<and> model_C m = C))
   \<and> (L = 0 \<longrightarrow> RLCModel_init R L C = Inl ZeroDivisionError)"
  by (auto simp: simulate_def RLCModel_init_def Let_def)

theorem C3_witness:
  "simulate sympy_nan 0 1 1 ''step'' Map.empty = Warning_box
   \<and> (\<exists>m. RLCModel_init 0 1 1 = Inr m \<and> model_R m = 0 \<and> model_L m = 1 \<and> model_C m = 1)
   \<and> RLCModel_init 1 0 1 = Inl ZeroDivisionError"
  using C3_validation_at_caller [of 0 1 1 sympy_nan "''step''" Map.empty]
    C3_validation_at_caller [of 1 0 1 sympy_nan "''step''" Map.empty]
  by simp

subsection \<open>C4: the Euler fallback simulation\<close>

text \<open>
  Claim C4: on a grid of \<open>N \<ge> 2\<close> points with spacing \<open>dt\<close> (the difference of its first
  two points), finite input samples \<open>V_in\<close> and a circuit with \<open>L \<noteq> 0\<close> and \<open>C \<noteq> 0\<close>,
  \<^verbatim>\<open>_numerical_simulation\<close> returns exactly the sequence \<open>i[0], ..., i[N-1]\<close> of
  \<open>euler_spec\<close>: \<open>i[0] = 0\<close>, \<open>v_C[0] = 0\<close>,
  \<open>i[k] = i[k-1] + dt (V_in[k-1] - R i[k-1] - v_C[k-1]) / L\<close> and
  \<open>v_C[k] = v_C[k-1] + dt i[k-1] / C\<close>.
\<close>

theorem C4_euler_fallback:
  assumes "length time_array = N" "2 \<le> N" "length V_in = N" "L \<noteq> 0" "C \<noteq> 0"
  shows "numerical_simulation time_array (map Fin V_in) R L C =
     Inr (map (\<lambda>k. Fin (fst (euler_spec (\<lambda>j. V_in ! j) (time_array ! 1 - time_array ! 0) R L C k)))
            [0..<N])"
  using numerical_simulation_spec [of L C time_array V_in R] assms by simp

theorem C4_witness:
  "numerical_simulation [0, 1, 2] (map Fin [1, 1, 1]) 1 1 1 = Inr [Fin 0, Fin 1, Fin 1]"
  using C4_euler_fallback [of "[0, 1, 2]" 3 "[1, 1, 1]" 1 1 1]
  by (simp add: upt_rec numeral_2_eq_2 numeral_3_eq_3)

subsection \<open>C5: an unknown signal kind\<close>

text \<open>
  Claim C5: for every signal kind other than the five recognised strings, both
  \<^verbatim>\<open>_get_signal_laplace\<close> and \<^verbatim>\<open>generate_signal\<close> raise the \<^verbatim>\<open>ValueError\<close> for an unknown
  signal kind and return nothing.
\<close>

theorem C5_unknown_signal_kind:
  assumes "signal_type \<notin> set [''step'', ''pulse'', ''ramp'', ''delayed'', ''impulse'']"
  shows "get_signal_laplace signal_type p = Inl (ValueError signal_type)
       \<and> generate_signal signal_type p' time_array = Inl (ValueError signal_type)"
  using assms by (simp add: get_signal_laplace_def generate_signal_def Let_def)

theorem C5_witness:
  "get_signal_laplace ''square'' Map.empty = Inl (ValueError ''square'')
   \<and> generate_signal ''square'' Map.empty [0, 1] = Inl (ValueError ''square'')"
  using C5_unknown_signal_kind [of "''square''" Map.empty Map.empty "[0, 1]"] by simp

subsection \<open>C6: the characteristic values\<close>

text \<open>
  Claim C6: for strictly positive \<open>R\<close>, \<open>L\<close>, \<open>C\<close> the constructor returns a model with
  \<open>\<omega>0 = 1 / sqrt (L C)\<close> (so \<open>\<omega>0 sqrt (L C) = 1\<close>) and \<open>\<zeta> = (R / 2) sqrt (C / L)\<close>;
  it is underdamped iff \<open>\<zeta> < 1\<close>, critically damped iff \<open>\<zeta> = 1\<close>, overdamped iff
  \<open>\<zeta> > 1\<close>; and \<open>\<omega>d = \<omega>0 sqrt (1 - \<zeta>\<^sup>2)\<close> when underdamped, 0 otherwise.
\<close>

theorem C6_characteristic_params:
  assumes "0 < R" "0 < L" "0 < C"
  shows "\<exists>m. RLCModel_init R L C = Inr m
     \<and> omega_0 m = Fin (1 / sqrt (L * C))
     \<and> (1 / sqrt (L * C)) * sqrt (L * C) = 1
     \<and> zeta m = Fin ((R / 2) * sqrt (C / L))
     \<and> (damping_type m = Subamortiguado \<longleftrightarrow> (R / 2) * sqrt (C / L) < 1)
     \<and> (damping_type m = Criticamente_amortiguado \<longleftrightarrow> (R / 2) * sqrt (C / L) = 1)
     \<and> (damping_type m = Sobreamortiguado \<longleftrightarrow> (R / 2) * sqrt (C / L) > 1)
     \<and> omega_d m =
         (if (R / 2) * sqrt (C / L) < 1
          then Fin ((1 / sqrt (L * C)) * sqrt (1 - ((R / 2) * sqrt (C / L))\<^sup>2))
          else Fin 0)"
proof -
  let ?z = "(R / 2) * sqrt (C / L)"
  have z0: "0 \<le> ?z" using assms by simp
  have s: "sqrt (L * C) \<noteq> 0" using assms by simp
  have sq: "?z < 1 \<Longrightarrow> \<not> 1 - ?z * ?z < 0"
  proof -
    assume "?z < 1"
    with z0 have "?z * ?z \<le> 1 * 1" by (intro mult_mono) auto
    then show ?thesis by simp
  qed
  show ?thesis
    using RLCModel_init_positive [OF assms(2,3), of R] s sq
    by (auto simp: power2_eq_square)
qed

theorem C6_witness:
  "\<exists>m. RLCModel_init 2 1 1 = Inr m \<and> omega_0 m = Fin 1 \<and> zeta m = Fin 1
     \<and> damping_type m = Criticamente_amortiguado \<and> omega_d m = Fin 0"
  using C6_characteristic_params [of 2 1 1] by auto

subsection \<open>C7: the sampled impulse\<close>

text \<open>
  Claim C7 says that the sampled impulse is a pulse of height \<open>A / (2 dt)\<close> whose
  discrete area, the sum of its nonzero samples times \<open>dt\<close>, is about \<open>A\<close>. On the grid
  \<^verbatim>\<open>np.linspace(0, d, n)\<close> the solver uses, only the sample at \<open>t = 0\<close> lies within
  \<open>|t| < dt\<close>: the result is \<open>A / (2 dt)\<close> followed by zeros, and its discrete area is
  \<open>A / 2\<close>.
\<close>

theorem C7_impulse_discrete_area:
  assumes "0 < d" "2 \<le> n"
  shows "impulse_signal p (np_linspace 0 d n) =
       map (\<lambda>k. if k = 0 then Fin (dict_get p ''amplitude'' 1 / (2 * (d / real (n - 1)))) else Fin 0)
         [0..<n]
     \<and> (dict_get p ''amplitude'' 1 / (2 * (d / real (n - 1)))) * (d / real (n - 1))
         = dict_get p ''amplitude'' 1 / 2"
proof -
  define dt where "dt = d / real (n - 1)"
  have dt: "0 < dt" using assms by (simp add: dt_def)
  have "np_linspace 0 d n = map (\<lambda>k. real k * dt) [0..<n]"
    by (simp add: np_linspace_def dt_def)
  then have samples: "impulse_signal p (np_linspace 0 d n) =
       map (\<lambda>k. if k = 0 then Fin (dict_get p ''amplitude'' 1 / (2 * dt)) else Fin 0) [0..<n]"
    using impulse_signal_uniform [OF dt assms(2), of p] by simp
  have area: "(dict_get p ''amplitude'' 1 / (2 * dt)) * dt = dict_get p ''amplitude'' 1 / 2"
    using dt by simp
  show ?thesis using samples area unfolding dt_def by blast
qed

theorem C7_witness:
  "impulse_signal [''amplitude'' \<mapsto> 1] (np_linspace 0 (2 / 10) 3) = [Fin 5, Fin 0, Fin 0]
   \<and> (5::real) * (1 / 10) = 1 / 2"
  using C7_impulse_discrete_area [of "2 / 10" 3 "[''amplitude'' \<mapsto> 1]"]
  by (simp add: dict_get_def upt_rec numeral_3_eq_3)

subsection \<open>C8: the sampled pulse\<close>

text \<open>
  Claim C8: for every amplitude \<open>A\<close>, width \<open>a\<close> and grid, \<^verbatim>\<open>_pulse_signal\<close> returns \<open>A\<close>
  at exactly the samples with \<open>0 \<le> t < a\<close> and 0 at every other sample; and for
  \<open>a = 0.001\<close> and amplitude 5, on any grid, a sample at \<open>t = 0\<close> is 5 and a sample at
  \<open>t = 0.002\<close> is 0.
\<close>

theorem C8_pulse_sampling:
  "pulse_signal p t =
     map (\<lambda>x. if 0 \<le> x \<and> x < dict_get p ''a'' (1 / 1000)
               then Fin (dict_get p ''amplitude'' 1) else Fin 0) t
   \<and> (\<forall>i j. i < length t \<and> j < length t \<and> t ! i = 0 \<and> t ! j = 2 / 1000 \<longrightarrow>
         pulse_signal [''amplitude'' \<mapsto> 5, ''a'' \<mapsto> 1 / 1000] t ! i = Fin 5
       \<and> pulse_signal [''amplitude'' \<mapsto> 5, ''a'' \<mapsto> 1 / 1000] t ! j = Fin 0)"
  by (simp add: pulse_signal_pointwise dict_get_def)

theorem C8_witness:
  "pulse_signal [''amplitude'' \<mapsto> 5, ''a'' \<mapsto> 1 / 1000] [0, 2 / 1000] = [Fin 5, Fin 0]"
  using C8_pulse_sampling [of "[''amplitude'' \<mapsto> 5, ''a'' \<mapsto> 1 / 1000]" "[0, 2 / 1000]"]
  by (simp add: dict_get_def)

subsection \<open>C9: a failing inverse transform\<close>



subsection \<open>C10: the impedance at zero frequency\<close>

text \<open>
  Claim C10: \<^verbatim>\<open>get_impedance\<close> at frequency 0 divides by zero and raises, for every
  model; at every frequency \<open>f \<noteq> 0\<close> it returns \<open>R + j (2 \<pi> f L - 1 / (2 \<pi> f C))\<close>, for
  every model whose capacitance is not zero (so for every model that satisfies the
  invariant \<open>C > 0\<close>).
\<close>

theorem C10_impedance:
  "get_impedance m 0 = Inl ZeroDivisionError
   \<and> (f \<noteq> 0 \<and> model_C m \<noteq> 0 \<longrightarrow>
        get_impedance m f =
          Inr (Complex (model_R m) (2 * pi * f * model_L m - 1 / (2 * pi * f * model_C m))))"
  by (simp add: get_impedance_def Let_def complex_eq_iff)

theorem C10_witness:
  "get_impedance \<lparr>model_R = 1, model_L = 1, model_C = 1, omega_0 = Fin 1, zeta = Fin (1/2),
       f_0 = Fin (1 / (2 * pi)), damping_type = Subamortiguado, omega_d = Fin (sqrt 3 / 2)\<rparr> 0
     = Inl ZeroDivisionError
   \<and> get_impedance \<lparr>model_R = 1, model_L = 1, model_C = 1, omega_0 = Fin 1, zeta = Fin (1/2),
       f_0 = Fin (1 / (2 * pi)), damping_type = Subamortiguado, omega_d = Fin (sqrt 3 / 2)\<rparr> 1
     = Inr (Complex 1 (2 * pi - 1 / (2 * pi)))"
  using C10_impedance [of "\<lparr>model_R = 1, model_L = 1, model_C = 1, omega_0 = Fin 1, zeta = Fin (1/2),
       f_0 = Fin (1 / (2 * pi)), damping_type = Subamortiguado, omega_d = Fin (sqrt 3 / 2)\<rparr>" 1]
  by simp

end
